theory Spec2Isabelle
  imports Main "HOL-Library.List_Lexorder" "HOL-Library.Char_ord"
begin

section \<open>Data model\<close>

text \<open>
  The relational schema of \<^verbatim>\<open>initDB\<close> (the same in \<^verbatim>\<open>server.js\<close> and in the second
  server file, \<^verbatim>\<open>part_001\<close>). A table is the list of its rows in heap order; a
  \<^verbatim>\<open>SERIAL\<close> column is a sequence whose last value is kept in the store.
  Identifiers are naturals, a \<^verbatim>\<open>TIMESTAMP\<close> is a number of seconds, a \<^verbatim>\<open>DATE\<close> a number
  of days, and a \<^verbatim>\<open>DECIMAL(15,2)\<close> amount is the integer number of its hundredths
  (binary floating point rounding of the JavaScript numbers is outside the model: an
  amount is the decimal the store holds). Strings and amounts are taken to fit their
  columns; of the refusals of the store, the violations of \<^verbatim>\<open>NOT NULL\<close> and of the
  foreign keys are in the model.
\<close>

record user =
  u_id :: nat
  u_username :: string
  u_email :: string
  u_password_hash :: string
  u_full_name :: string
  u_phone :: string
  u_address :: string
  u_is_admin :: bool
  u_must_change_password :: bool
  u_created_at :: nat
  u_last_login :: "nat option"

text \<open>A row of \<^verbatim>\<open>creditors\<close> or of \<^verbatim>\<open>debtors\<close>: the two tables have the same columns.\<close>

record party =
  p_id :: nat
  p_user_id :: nat
  p_full_name :: string
  p_contact :: string
  p_gender :: string
  p_language :: string
  p_created_at :: nat

text \<open>
  A row of \<^verbatim>\<open>creditor_items\<close> or of \<^verbatim>\<open>debtor_items\<close>; \<open>i_parent\<close> is the column
  \<^verbatim>\<open>creditor_id\<close>, respectively \<^verbatim>\<open>debtor_id\<close>. The status is the free
  \<^verbatim>\<open>VARCHAR(20)\<close> of the schema: no handler restricts it to the three values of the form.
\<close>

record item =
  i_id :: nat
  i_parent :: nat
  i_reason :: string
  i_amount :: int
  i_date_incurred :: "nat option"
  i_due_date :: "nat option"
  i_status :: string
  i_notes :: string
  i_created_at :: nat

record payment =
  pay_id :: nat
  pay_user_id :: nat
  pay_type :: string
  pay_related_id :: "nat option"
  pay_amount :: int
  pay_date :: nat
  pay_method :: string
  pay_reference :: string
  pay_notes :: string
  pay_created_at :: nat

record db =
  users :: "user list"
  creditors :: "party list"
  creditor_items :: "item list"
  debtors :: "party list"
  debtor_items :: "item list"
  payments :: "payment list"
  users_seq :: nat
  creditors_seq :: nat
  creditor_items_seq :: nat
  debtors_seq :: nat
  debtor_items_seq :: nat
  payments_seq :: nat

text \<open>
  The session of \<^verbatim>\<open>express-session\<close>: \<open>s_userId\<close> is \<open>None\<close> before login.
  \<^verbatim>\<open>part_001\<close> also keeps \<^verbatim>\<open>mustChangePassword\<close> in it.
\<close>

record session =
  s_userId :: "nat option"
  s_username :: string
  s_isAdmin :: bool
  s_mustChangePassword :: bool

text \<open>The error responses: the status code and what the JSON body says.\<close>

datatype error =
    Unauthorized            \<comment> \<open>401, \<^verbatim>\<open>requireAuth\<close>\<close>
  | Forbidden               \<comment> \<open>403, \<^verbatim>\<open>requireAdmin\<close>\<close>
  | WeakPassword            \<comment> \<open>400, password must be at least 5 characters\<close>
  | InvalidCurrentPassword  \<comment> \<open>400, current password is incorrect\<close>
  | CannotDeleteSelf        \<comment> \<open>400, cannot delete your own account\<close>
  | NotFound                \<comment> \<open>404\<close>
  | ServerError             \<comment> \<open>500, the \<^verbatim>\<open>catch\<close> of a handler\<close>

section \<open>Request bodies and the defaults of \<^verbatim>\<open>||\<close>\<close>

text \<open>
  A field of a JSON body may be absent. \<^verbatim>\<open>x || d\<close> yields \<^verbatim>\<open>d\<close> when \<^verbatim>\<open>x\<close> is
  absent, the empty string or the number 0.
\<close>

definition or_str :: "string option \<Rightarrow> string \<Rightarrow> string" where
  "or_str x d = (case x of None \<Rightarrow> d | Some s \<Rightarrow> if s = [] then d else s)"

definition or_num :: "int option \<Rightarrow> int \<Rightarrow> int" where
  "or_num x d = (case x of None \<Rightarrow> d | Some n \<Rightarrow> if n = 0 then d else n)"

text \<open>
  An item of the \<^verbatim>\<open>items\<close> array of a body. For the two dates \<open>None\<close> is an absent
  or empty field: \<^verbatim>\<open>item.date_incurred || null\<close> stores \<^verbatim>\<open>NULL\<close> then.
\<close>

record item_input =
  in_reason :: "string option"
  in_amount :: "int option"
  in_date_incurred :: "nat option"
  in_due_date :: "nat option"
  in_status :: "string option"
  in_notes :: "string option"

text \<open>
  The fields \<^verbatim>\<open>full_name, contact, gender, language\<close> of a creditor or debtor body.
  \<^verbatim>\<open>full_name\<close> is passed as it is; the column is \<^verbatim>\<open>NOT NULL\<close>, so the store
  refuses an absent one.
\<close>

record party_input =
  in_full_name :: "string option"
  in_contact :: "string option"
  in_gender :: "string option"
  in_language :: "string option"

section \<open>Middleware\<close>

text \<open>
  \<^verbatim>\<open>requireAuth\<close>: \<^verbatim>\<open>req.session && req.session.userId\<close> must be truthy, so a user
  id 0 does not pass (the sequence starts at 1). The result is the caller's id.
\<close>

definition requireAuth :: "session \<Rightarrow> nat option" where
  "requireAuth sess =
     (case s_userId sess of
        None \<Rightarrow> None
      | Some uid \<Rightarrow> if uid = 0 then None else Some uid)"


section \<open>Ledger: listings\<close>

text \<open>
  What \<^verbatim>\<open>GET /api/creditors\<close> and \<^verbatim>\<open>GET /api/debtors\<close> return for one row: the row,
  its items and the two computed amounts.
\<close>

record party_view =
  pv_row :: party
  pv_items :: "item list"
  total_amount :: int
  pending_amount :: int

text \<open>
  \<^verbatim>\<open>items.reduce((sum, item) => sum + item.amount, 0)\<close>: a left fold from 0.
\<close>

definition reduce_amount :: "item list \<Rightarrow> int" where
  "reduce_amount items = foldl (\<lambda>sum it. sum + i_amount it) 0 items"

text \<open>
  The body of the \<^verbatim>\<open>map\<close> callback: the items of the row in the order of their ids
  (\<^verbatim>\<open>WHERE creditor_id = $1 ORDER BY id\<close>), the total over all of them, and the pending
  amount over \<^verbatim>\<open>items.filter(i => i.status === 'pending')\<close>. The stored amount is never
  \<^verbatim>\<open>NULL\<close> (every insert passes \<^verbatim>\<open>item.amount || 0\<close>), so
  \<^verbatim>\<open>parseFloat(item.amount) || 0\<close> is the stored amount.
\<close>

definition party_view_of :: "item list \<Rightarrow> party \<Rightarrow> party_view" where
  "party_view_of tbl c =
     (let items = sort_key i_id (filter (\<lambda>i. i_parent i = p_id c) tbl)
      in \<lparr> pv_row = c,
           pv_items = items,
           total_amount = reduce_amount items,
           pending_amount = reduce_amount (filter (\<lambda>i. i_status i = ''pending'') items) \<rparr>)"

text \<open>
  \<^verbatim>\<open>GET /api/creditors\<close>, the same in both server files:
  \<^verbatim>\<open>SELECT * FROM creditors WHERE user_id = $1 ORDER BY full_name\<close>, then the callback
  on each row (\<^verbatim>\<open>Promise.all\<close> keeps the order).
\<close>

definition listCreditors :: "session \<Rightarrow> db \<Rightarrow> error + party_view list" where
  "listCreditors sess d =
     (case requireAuth sess of
        None \<Rightarrow> Inl Unauthorized
      | Some uid \<Rightarrow>
          Inr (map (party_view_of (creditor_items d))
                 (sort_key p_full_name (filter (\<lambda>c. p_user_id c = uid) (creditors d)))))"

text \<open>\<^verbatim>\<open>GET /api/debtors\<close>, the mirror image on \<^verbatim>\<open>debtors\<close> and \<^verbatim>\<open>debtor_items\<close>.\<close>

definition listDebtors :: "session \<Rightarrow> db \<Rightarrow> error + party_view list" where
  "listDebtors sess d =
     (case requireAuth sess of
        None \<Rightarrow> Inl Unauthorized
      | Some uid \<Rightarrow>
          Inr (map (party_view_of (debtor_items d))
                 (sort_key p_full_name (filter (\<lambda>c. p_user_id c = uid) (debtors d)))))"

section \<open>Ledger: creditors and debtors\<close>

text \<open>
  The row one \<^verbatim>\<open>INSERT INTO creditor_items\<close> (or \<^verbatim>\<open>debtor_items\<close>) writes: the next
  value of the sequence, the parent, and the submitted fields with the defaults of
  \<^verbatim>\<open>item.reason || ''\<close>, \<^verbatim>\<open>item.amount || 0\<close>, \<^verbatim>\<open>item.status || 'pending'\<close> and
  \<^verbatim>\<open>item.notes || ''\<close>. \<open>now\<close> is the time of the request.
\<close>

definition item_row :: "nat \<Rightarrow> nat \<Rightarrow> nat \<Rightarrow> item_input \<Rightarrow> item" where
  "item_row new_id parent now it =
     \<lparr> i_id = new_id,
       i_parent = parent,
       i_reason = or_str (in_reason it) '''',
       i_amount = or_num (in_amount it) 0,
       i_date_incurred = in_date_incurred it,
       i_due_date = in_due_date it,
       i_status = or_str (in_status it) ''pending'',
       i_notes = or_str (in_notes it) '''',
       i_created_at = now \<rparr>"

text \<open>
  \<^verbatim>\<open>for (const item of items) await pool.query('INSERT ...')\<close> on an item table and its
  sequence. An absent \<^verbatim>\<open>items\<close> is the empty list: both skip the loop.
\<close>

fun insert_items :: "nat \<Rightarrow> nat \<Rightarrow> item_input list \<Rightarrow> item list \<times> nat \<Rightarrow> item list \<times> nat" where
  "insert_items parent now [] (tbl, seq) = (tbl, seq)"
| "insert_items parent now (it # its) (tbl, seq) =
     insert_items parent now its (tbl @ [item_row (Suc seq) parent now it], Suc seq)"

text \<open>
  \<^verbatim>\<open>SET full_name = $1, contact = $2, gender = $3, language = $4\<close> with
  \<^verbatim>\<open>contact || ''\<close>, \<^verbatim>\<open>gender || 'male'\<close>, \<^verbatim>\<open>language || 'english'\<close>.
\<close>

definition set_party_fields :: "string \<Rightarrow> party_input \<Rightarrow> party \<Rightarrow> party" where
  "set_party_fields name f c =
     c\<lparr> p_full_name := name,
        p_contact := or_str (in_contact f) '''',
        p_gender := or_str (in_gender f) ''male'',
        p_language := or_str (in_language f) ''english'' \<rparr>"

subsection \<open>\<^verbatim>\<open>server.js\<close>\<close>

text \<open>
  \<^verbatim>\<open>PUT /api/creditors/:id\<close> of \<^verbatim>\<open>server.js\<close>. The route parameter is the integer the
  store reads from it. The handler verifies ownership first
  (\<^verbatim>\<open>SELECT id FROM creditors WHERE id = $1 AND user_id = $2\<close>, 404 when no row), then
  updates the row with that id, deletes every item of it and inserts the submitted
  items. An absent \<^verbatim>\<open>full_name\<close> makes the \<^verbatim>\<open>UPDATE\<close> fail, which the \<^verbatim>\<open>catch\<close>
  turns into a 500 before anything is written.
\<close>

definition updateCreditor ::
  "session \<Rightarrow> nat \<Rightarrow> party_input \<Rightarrow> item_input list \<Rightarrow> nat \<Rightarrow> db \<Rightarrow> (error + unit) \<times> db" where
  "updateCreditor sess cid f items now d =
     (case requireAuth sess of
        None \<Rightarrow> (Inl Unauthorized, d)
      | Some uid \<Rightarrow>
          if filter (\<lambda>c. p_id c = cid \<and> p_user_id c = uid) (creditors d) = []
          then (Inl NotFound, d)
          else (case in_full_name f of
                  None \<Rightarrow> (Inl ServerError, d)
                | Some name \<Rightarrow>
                    let parents = map (\<lambda>c. if p_id c = cid then set_party_fields name f c else c)
                                    (creditors d);
                        kept = filter (\<lambda>i. i_parent i \<noteq> cid) (creditor_items d);
                        (tbl, seq) = insert_items cid now items (kept, creditor_items_seq d)
                    in (Inr (), d\<lparr> creditors := parents, creditor_items := tbl,
                                   creditor_items_seq := seq \<rparr>)))"

definition updateDebtor ::
  "session \<Rightarrow> nat \<Rightarrow> party_input \<Rightarrow> item_input list \<Rightarrow> nat \<Rightarrow> db \<Rightarrow> (error + unit) \<times> db" where
  "updateDebtor sess did f items now d =
     (case requireAuth sess of
        None \<Rightarrow> (Inl Unauthorized, d)
      | Some uid \<Rightarrow>
          if filter (\<lambda>c. p_id c = did \<and> p_user_id c = uid) (debtors d) = []
          then (Inl NotFound, d)
          else (case in_full_name f of
                  None \<Rightarrow> (Inl ServerError, d)
                | Some name \<Rightarrow>
                    let parents = map (\<lambda>c. if p_id c = did then set_party_fields name f c else c)
                                    (debtors d);
                        kept = filter (\<lambda>i. i_parent i \<noteq> did) (debtor_items d);
                        (tbl, seq) = insert_items did now items (kept, debtor_items_seq d)
                    in (Inr (), d\<lparr> debtors := parents, debtor_items := tbl,
                                   debtor_items_seq := seq \<rparr>)))"

text \<open>
  \<^verbatim>\<open>DELETE /api/creditors/:id\<close> of \<^verbatim>\<open>server.js\<close>: the same ownership check, then the
  items of the creditor and the creditor are deleted.
\<close>

definition deleteCreditor :: "session \<Rightarrow> nat \<Rightarrow> db \<Rightarrow> (error + unit) \<times> db" where
  "deleteCreditor sess cid d =
     (case requireAuth sess of
        None \<Rightarrow> (Inl Unauthorized, d)
      | Some uid \<Rightarrow>
          if filter (\<lambda>c. p_id c = cid \<and> p_user_id c = uid) (creditors d) = []
          then (Inl NotFound, d)
          else (Inr (), d\<lparr> creditor_items := filter (\<lambda>i. i_parent i \<noteq> cid) (creditor_items d),
                            creditors := filter (\<lambda>c. p_id c \<noteq> cid) (creditors d) \<rparr>))"

definition deleteDebtor :: "session \<Rightarrow> nat \<Rightarrow> db \<Rightarrow> (error + unit) \<times> db" where
  "deleteDebtor sess did d =
     (case requireAuth sess of
        None \<Rightarrow> (Inl Unauthorized, d)
      | Some uid \<Rightarrow>
          if filter (\<lambda>c. p_id c = did \<and> p_user_id c = uid) (debtors d) = []
          then (Inl NotFound, d)
          else (Inr (), d\<lparr> debtor_items := filter (\<lambda>i. i_parent i \<noteq> did) (debtor_items d),
                            debtors := filter (\<lambda>c. p_id c \<noteq> did) (debtors d) \<rparr>))"

subsection \<open>\<^verbatim>\<open>part_001\<close>\<close>

text \<open>
  \<^verbatim>\<open>UPDATE creditors SET full_name = $1, ... WHERE id = $5 AND user_id = $6\<close> of
  \<^verbatim>\<open>part_001\<close> (and the same on \<^verbatim>\<open>debtors\<close>): the rows of that id and owner get the
  submitted fields. \<open>None\<close> is the refusal of an absent \<^verbatim>\<open>full_name\<close> (\<^verbatim>\<open>NOT NULL\<close>),
  which the store raises only when there is a row to update.
\<close>

definition update_own_party :: "nat \<Rightarrow> nat \<Rightarrow> party_input \<Rightarrow> party list \<Rightarrow> party list option" where
  "update_own_party cid uid f party_tbl =
     (if filter (\<lambda>c. p_id c = cid \<and> p_user_id c = uid) party_tbl = [] then Some party_tbl
      else (case in_full_name f of
              None \<Rightarrow> None
            | Some name \<Rightarrow>
                Some (map (\<lambda>c. if p_id c = cid \<and> p_user_id c = uid
                                then set_party_fields name f c else c) party_tbl)))"

text \<open>
  \<^verbatim>\<open>PUT /api/creditors/:id\<close> of \<^verbatim>\<open>part_001\<close>: no ownership check. After the \<^verbatim>\<open>UPDATE\<close>
  above, the \<^verbatim>\<open>DELETE FROM creditor_items WHERE creditor_id = $1\<close> and the inserts
  that follow take the route parameter alone. When no creditor has that id, the store
  refuses the first insert (\<^verbatim>\<open>REFERENCES creditors(id)\<close>): a 500 after the
  \<^verbatim>\<open>DELETE\<close>, with one id drawn from the sequence.
\<close>

definition updateCreditor_p1 ::
  "session \<Rightarrow> nat \<Rightarrow> party_input \<Rightarrow> item_input list \<Rightarrow> nat \<Rightarrow> db \<Rightarrow> (error + unit) \<times> db" where
  "updateCreditor_p1 sess cid f items now d =
     (case requireAuth sess of
        None \<Rightarrow> (Inl Unauthorized, d)
      | Some uid \<Rightarrow>
          (case update_own_party cid uid f (creditors d) of
             None \<Rightarrow> (Inl ServerError, d)
           | Some parents \<Rightarrow>
               let kept = filter (\<lambda>i. i_parent i \<noteq> cid) (creditor_items d);
                   (tbl, seq) = insert_items cid now items (kept, creditor_items_seq d)
               in if items \<noteq> [] \<and> filter (\<lambda>c. p_id c = cid) (creditors d) = []
                  then (Inl ServerError, d\<lparr> creditor_items := kept,
                                           creditor_items_seq := Suc (creditor_items_seq d) \<rparr>)
                  else (Inr (), d\<lparr> creditors := parents, creditor_items := tbl,
                                 creditor_items_seq := seq \<rparr>)))"

definition updateDebtor_p1 ::
  "session \<Rightarrow> nat \<Rightarrow> party_input \<Rightarrow> item_input list \<Rightarrow> nat \<Rightarrow> db \<Rightarrow> (error + unit) \<times> db" where
  "updateDebtor_p1 sess did f items now d =
     (case requireAuth sess of
        None \<Rightarrow> (Inl Unauthorized, d)
      | Some uid \<Rightarrow>
          (case update_own_party did uid f (debtors d) of
             None \<Rightarrow> (Inl ServerError, d)
           | Some parents \<Rightarrow>
               let kept = filter (\<lambda>i. i_parent i \<noteq> did) (debtor_items d);
                   (tbl, seq) = insert_items did now items (kept, debtor_items_seq d)
               in if items \<noteq> [] \<and> filter (\<lambda>c. p_id c = did) (debtors d) = []
                  then (Inl ServerError, d\<lparr> debtor_items := kept,
                                           debtor_items_seq := Suc (debtor_items_seq d) \<rparr>)
                  else (Inr (), d\<lparr> debtors := parents, debtor_items := tbl,
                                 debtor_items_seq := seq \<rparr>)))"

text \<open>
  \<^verbatim>\<open>DELETE /api/creditors/:id\<close> of \<^verbatim>\<open>part_001\<close>: the items of the route parameter are
  deleted first, with no owner in the \<^verbatim>\<open>WHERE\<close>; the creditor row is deleted
  \<^verbatim>\<open>WHERE id = $1 AND user_id = $2\<close>.
\<close>

definition deleteCreditor_p1 :: "session \<Rightarrow> nat \<Rightarrow> db \<Rightarrow> (error + unit) \<times> db" where
  "deleteCreditor_p1 sess cid d =
     (case requireAuth sess of
        None \<Rightarrow> (Inl Unauthorized, d)
      | Some uid \<Rightarrow>
          (Inr (), d\<lparr> creditor_items := filter (\<lambda>i. i_parent i \<noteq> cid) (creditor_items d),
                       creditors := filter (\<lambda>c. \<not> (p_id c = cid \<and> p_user_id c = uid))
                                      (creditors d) \<rparr>))"

definition deleteDebtor_p1 :: "session \<Rightarrow> nat \<Rightarrow> db \<Rightarrow> (error + unit) \<times> db" where
  "deleteDebtor_p1 sess did d =
     (case requireAuth sess of
        None \<Rightarrow> (Inl Unauthorized, d)
      | Some uid \<Rightarrow>
          (Inr (), d\<lparr> debtor_items := filter (\<lambda>i. i_parent i \<noteq> did) (debtor_items d),
                       debtors := filter (\<lambda>c. \<not> (p_id c = did \<and> p_user_id c = uid))
                                    (debtors d) \<rparr>))"

section \<open>Ledger: payments\<close>

text \<open>
  The body of \<^verbatim>\<open>POST /api/payments\<close>. \<^verbatim>\<open>type\<close> and \<^verbatim>\<open>amount\<close> are passed as they
  are, and both columns are \<^verbatim>\<open>NOT NULL\<close>.
\<close>

record payment_input =
  in_type :: "string option"
  in_related_id :: "nat option"
  in_pay_amount :: "int option"
  in_payment_date :: "nat option"
  in_payment_method :: "string option"
  in_reference :: "string option"
  in_pay_notes :: "string option"

text \<open>\<^verbatim>\<open>new Date()\<close> written to a \<^verbatim>\<open>DATE\<close> column: the day of the request.\<close>

definition date_of :: "nat \<Rightarrow> nat" where
  "date_of now = now div 86400"

text \<open>
  The row \<^verbatim>\<open>INSERT INTO payments\<close> writes for the caller \<open>uid\<close>, a type and an amount:
  \<^verbatim>\<open>payment_date || new Date()\<close> and the empty string for an absent method, reference
  or note. The amount is stored as given, whatever the type.
\<close>

definition payment_row ::
  "nat \<Rightarrow> nat \<Rightarrow> string \<Rightarrow> nat option \<Rightarrow> int \<Rightarrow> payment_input \<Rightarrow> nat \<Rightarrow> payment" where
  "payment_row new_id uid ty related amt p now =
     \<lparr> pay_id = new_id,
       pay_user_id = uid,
       pay_type = ty,
       pay_related_id = related,
       pay_amount = amt,
       pay_date = (case in_payment_date p of None \<Rightarrow> date_of now | Some day \<Rightarrow> day),
       pay_method = or_str (in_payment_method p) '''',
       pay_reference = or_str (in_reference p) '''',
       pay_notes = or_str (in_pay_notes p) '''',
       pay_created_at = now \<rparr>"

text \<open>
  \<^verbatim>\<open>POST /api/payments\<close> of \<^verbatim>\<open>server.js\<close>: one \<^verbatim>\<open>INSERT INTO payments\<close>, with
  \<^verbatim>\<open>related_id || null\<close>. The store refuses the row when the type or the amount is
  absent (\<^verbatim>\<open>NOT NULL\<close>) or when the user of the session is no longer in \<^verbatim>\<open>users\<close>
  (\<^verbatim>\<open>REFERENCES users(id)\<close>); the \<^verbatim>\<open>catch\<close> answers 500. A refused insert has drawn
  its id from the sequence all the same.
\<close>

definition recordPayment :: "session \<Rightarrow> payment_input \<Rightarrow> nat \<Rightarrow> db \<Rightarrow> (error + nat) \<times> db" where
  "recordPayment sess p now d =
     (case requireAuth sess of
        None \<Rightarrow> (Inl Unauthorized, d)
      | Some uid \<Rightarrow>
          let new_id = Suc (payments_seq d);
              related = (case in_related_id p of
                           None \<Rightarrow> None
                         | Some k \<Rightarrow> if k = 0 then None else Some k)
          in (case (in_type p, in_pay_amount p) of
                (Some ty, Some amt) \<Rightarrow>
                  if filter (\<lambda>u. u_id u = uid) (users d) = []
                  then (Inl ServerError, d\<lparr> payments_seq := new_id \<rparr>)
                  else (Inr new_id,
                        d\<lparr> payments := payments d @ [payment_row new_id uid ty related amt p now],
                           payments_seq := new_id \<rparr>)
              | _ \<Rightarrow> (Inl ServerError, d\<lparr> payments_seq := new_id \<rparr>)))"

text \<open>
  \<^verbatim>\<open>POST /api/payments\<close> of \<^verbatim>\<open>part_001\<close>: the same insert without the column
  \<^verbatim>\<open>related_id\<close>, which stays \<^verbatim>\<open>NULL\<close>.
\<close>

definition recordPayment_p1 :: "session \<Rightarrow> payment_input \<Rightarrow> nat \<Rightarrow> db \<Rightarrow> (error + nat) \<times> db" where
  "recordPayment_p1 sess p now d =
     (case requireAuth sess of
        None \<Rightarrow> (Inl Unauthorized, d)
      | Some uid \<Rightarrow>
          let new_id = Suc (payments_seq d)
          in (case (in_type p, in_pay_amount p) of
                (Some ty, Some amt) \<Rightarrow>
                  if filter (\<lambda>u. u_id u = uid) (users d) = []
                  then (Inl ServerError, d\<lparr> payments_seq := new_id \<rparr>)
                  else (Inr new_id,
                        d\<lparr> payments := payments d @ [payment_row new_id uid ty None amt p now],
                           payments_seq := new_id \<rparr>)
              | _ \<Rightarrow> (Inl ServerError, d\<lparr> payments_seq := new_id \<rparr>)))"

text \<open>
  \<^verbatim>\<open>DELETE /api/payments/:id\<close> of \<^verbatim>\<open>server.js\<close>: the ownership check
  (\<^verbatim>\<open>SELECT id FROM payments WHERE id = $1 AND user_id = $2\<close>, 404 when no row), then
  \<^verbatim>\<open>DELETE FROM payments WHERE id = $1\<close>.
\<close>

definition deletePayment :: "session \<Rightarrow> nat \<Rightarrow> db \<Rightarrow> (error + unit) \<times> db" where
  "deletePayment sess pid d =
     (case requireAuth sess of
        None \<Rightarrow> (Inl Unauthorized, d)
      | Some uid \<Rightarrow>
          if filter (\<lambda>p. pay_id p = pid \<and> pay_user_id p = uid) (payments d) = []
          then (Inl NotFound, d)
          else (Inr (), d\<lparr> payments := filter (\<lambda>p. pay_id p \<noteq> pid) (payments d) \<rparr>))"

text \<open>
  \<^verbatim>\<open>DELETE /api/payments/:id\<close> of \<^verbatim>\<open>part_001\<close>:
  \<^verbatim>\<open>DELETE FROM payments WHERE id = $1 AND user_id = $2\<close>, and success whether or not a
  row was deleted.
\<close>

definition deletePayment_p1 :: "session \<Rightarrow> nat \<Rightarrow> db \<Rightarrow> (error + unit) \<times> db" where
  "deletePayment_p1 sess pid d =
     (case requireAuth sess of
        None \<Rightarrow> (Inl Unauthorized, d)
      | Some uid \<Rightarrow>
          (Inr (), d\<lparr> payments := filter (\<lambda>p. \<not> (pay_id p = pid \<and> pay_user_id p = uid))
                                    (payments d) \<rparr>))"

text \<open>
  \<^verbatim>\<open>ORDER BY\<close>: the rows are sorted by the relation \<open>before\<close> (``may stand before'').
  SQL leaves the order of rows that the sort keys do not separate open; the model is
  the stable insertion sort, which keeps such rows in heap order, that is, in the order
  of their insertion.
\<close>

fun insert_by :: "('a \<Rightarrow> 'a \<Rightarrow> bool) \<Rightarrow> 'a \<Rightarrow> 'a list \<Rightarrow> 'a list" where
  "insert_by before x [] = [x]"
| "insert_by before x (y # ys) =
     (if before x y then x # y # ys else y # insert_by before x ys)"

definition order_by :: "('a \<Rightarrow> 'a \<Rightarrow> bool) \<Rightarrow> 'a list \<Rightarrow> 'a list" where
  "order_by before xs = foldr (insert_by before) xs []"

text \<open>\<^verbatim>\<open>ORDER BY payment_date DESC, created_at DESC\<close>\<close>

definition by_date_created_desc :: "payment \<Rightarrow> payment \<Rightarrow> bool" where
  "by_date_created_desc p q =
     (pay_date q < pay_date p \<or> (pay_date p = pay_date q \<and> pay_created_at q \<le> pay_created_at p))"

text \<open>\<^verbatim>\<open>ORDER BY payment_date DESC\<close>\<close>

definition by_date_desc :: "payment \<Rightarrow> payment \<Rightarrow> bool" where
  "by_date_desc p q = (pay_date q \<le> pay_date p)"

text \<open>
  \<^verbatim>\<open>GET /api/payments\<close> of \<^verbatim>\<open>server.js\<close>:
  \<^verbatim>\<open>SELECT * FROM payments WHERE user_id = $1 ORDER BY payment_date DESC, created_at DESC\<close>.
  The amount of a row is never \<^verbatim>\<open>NULL\<close>, so \<^verbatim>\<open>parseFloat(r.amount) || 0\<close> is the
  stored amount.
\<close>

definition listPayments :: "session \<Rightarrow> db \<Rightarrow> error + payment list" where
  "listPayments sess d =
     (case requireAuth sess of
        None \<Rightarrow> Inl Unauthorized
      | Some uid \<Rightarrow>
          Inr (order_by by_date_created_desc (filter (\<lambda>p. pay_user_id p = uid) (payments d))))"

text \<open>
  \<^verbatim>\<open>GET /api/payments\<close> of \<^verbatim>\<open>part_001\<close>:
  \<^verbatim>\<open>SELECT * FROM payments WHERE user_id = $1 ORDER BY payment_date DESC\<close>.
\<close>

definition listPayments_p1 :: "session \<Rightarrow> db \<Rightarrow> error + payment list" where
  "listPayments_p1 sess d =
     (case requireAuth sess of
        None \<Rightarrow> Inl Unauthorized
      | Some uid \<Rightarrow>
          Inr (order_by by_date_desc (filter (\<lambda>p. pay_user_id p = uid) (payments d))))"

section \<open>Dashboard statistics\<close>

text \<open>\<^verbatim>\<open>SUM\<close> over no row is \<^verbatim>\<open>NULL\<close>; \<^verbatim>\<open>COALESCE(x, 0)\<close> replaces it.\<close>

definition sql_sum :: "int list \<Rightarrow> int option" where
  "sql_sum xs = (case xs of [] \<Rightarrow> None | _ \<Rightarrow> Some (sum_list xs))"

definition coalesce :: "int option \<Rightarrow> int \<Rightarrow> int" where
  "coalesce x d = (case x of None \<Rightarrow> d | Some v \<Rightarrow> v)"

text \<open>\<^verbatim>\<open>parseFloat(total) || 0\<close> on the number the store returned.\<close>

definition parse_or_zero :: "int \<Rightarrow> int" where
  "parse_or_zero x = (if x = 0 then 0 else x)"

text \<open>
  The rows of
  \<^verbatim>\<open>FROM creditor_items ci JOIN creditors c ON ci.creditor_id = c.id
  WHERE c.user_id = $1 AND ci.status = 'pending'\<close>, as the amounts that are summed
  (the same query on the debtor tables).
\<close>

definition pending_amounts :: "item list \<Rightarrow> party list \<Rightarrow> nat \<Rightarrow> int list" where
  "pending_amounts item_tbl party_tbl uid =
     concat (map (\<lambda>it. map (\<lambda>c. i_amount it)
                          (filter (\<lambda>c. i_parent it = p_id c \<and> p_user_id c = uid
                                        \<and> i_status it = ''pending'') party_tbl))
                 item_tbl)"

record stats =
  total_owed_to_creditors :: int
  total_owed_by_debtors :: int
  net_position :: int
  creditor_count :: nat
  debtor_count :: nat

text \<open>
  \<^verbatim>\<open>GET /api/dashboard/stats\<close> of \<^verbatim>\<open>part_001\<close>: the two sums, their difference computed
  again from the two query results, and the two counts.
\<close>

definition dashboardStats_p1 :: "session \<Rightarrow> db \<Rightarrow> error + stats" where
  "dashboardStats_p1 sess d =
     (case requireAuth sess of
        None \<Rightarrow> Inl Unauthorized
      | Some uid \<Rightarrow>
          let ct = coalesce (sql_sum (pending_amounts (creditor_items d) (creditors d) uid)) 0;
              dt = coalesce (sql_sum (pending_amounts (debtor_items d) (debtors d) uid)) 0;
              cc = length (filter (\<lambda>c. p_user_id c = uid) (creditors d));
              dc = length (filter (\<lambda>c. p_user_id c = uid) (debtors d))
          in Inr \<lparr> total_owed_to_creditors = parse_or_zero ct,
                   total_owed_by_debtors = parse_or_zero dt,
                   net_position = parse_or_zero dt - parse_or_zero ct,
                   creditor_count = cc,
                   debtor_count = dc \<rparr>)"

text \<open>
  \<^verbatim>\<open>GET /api/dashboard/stats\<close> of \<^verbatim>\<open>server.js\<close>: the same five fields and the five most
  recent payments (\<^verbatim>\<open>ORDER BY payment_date DESC LIMIT 5\<close>).
\<close>

record stats_recent = stats +
  recent_payments :: "payment list"

definition dashboardStats :: "session \<Rightarrow> db \<Rightarrow> error + stats_recent" where
  "dashboardStats sess d =
     (case requireAuth sess of
        None \<Rightarrow> Inl Unauthorized
      | Some uid \<Rightarrow>
          let creditorTotal = coalesce (sql_sum (pending_amounts (creditor_items d) (creditors d) uid)) 0;
              debtorTotal = coalesce (sql_sum (pending_amounts (debtor_items d) (debtors d) uid)) 0;
              creditorCount = length (filter (\<lambda>c. p_user_id c = uid) (creditors d));
              debtorCount = length (filter (\<lambda>c. p_user_id c = uid) (debtors d));
              recentPayments = take 5 (order_by by_date_desc
                                         (filter (\<lambda>p. pay_user_id p = uid) (payments d)))
          in Inr \<lparr> total_owed_to_creditors = parse_or_zero creditorTotal,
                   total_owed_by_debtors = parse_or_zero debtorTotal,
                   net_position = parse_or_zero debtorTotal - parse_or_zero creditorTotal,
                   creditor_count = creditorCount,
                   debtor_count = debtorCount,
                   recent_payments = recentPayments \<rparr>)"

section \<open>Passwords\<close>

text \<open>
  \<^verbatim>\<open>bcryptjs\<close> is outside the repository: \<open>hash\<close> stands for \<^verbatim>\<open>bcrypt.hash\<close> with the
  salt of the request and \<open>compare\<close> for \<^verbatim>\<open>bcrypt.compare\<close>. A password is the
  list of the code units that \<^verbatim>\<open>.length\<close> counts.
\<close>

text \<open>
  \<^verbatim>\<open>UPDATE users SET password_hash = $1, must_change_password = FALSE WHERE id = $2\<close>
\<close>

definition set_password :: "nat \<Rightarrow> string \<Rightarrow> db \<Rightarrow> db" where
  "set_password uid h d =
     d\<lparr> users := map (\<lambda>u. if u_id u = uid
                            then u\<lparr> u_password_hash := h, u_must_change_password := False \<rparr>
                            else u) (users d) \<rparr>"

text \<open>
  \<^verbatim>\<open>PUT /api/auth/password\<close> of \<^verbatim>\<open>server.js\<close>. The length test
  \<^verbatim>\<open>!newPassword || newPassword.length < 5\<close> comes first; then the stored hash of the
  caller is read (\<^verbatim>\<open>result.rows[0]\<close> of no row, or \<^verbatim>\<open>bcrypt.compare\<close> of an absent
  password, throws: a 500) and compared with the current password.
  The session is returned as it was.
\<close>

definition changePassword ::
  "(string \<Rightarrow> string) \<Rightarrow> (string \<Rightarrow> string \<Rightarrow> bool) \<Rightarrow> session \<Rightarrow> string option \<Rightarrow> string option
     \<Rightarrow> db \<Rightarrow> (error + unit) \<times> session \<times> db" where
  "changePassword hash compare sess currentPassword newPassword d =
     (case requireAuth sess of
        None \<Rightarrow> (Inl Unauthorized, sess, d)
      | Some uid \<Rightarrow>
          (case newPassword of
             None \<Rightarrow> (Inl WeakPassword, sess, d)
           | Some np \<Rightarrow>
               if np = [] \<or> length np < 5 then (Inl WeakPassword, sess, d)
               else (case filter (\<lambda>u. u_id u = uid) (users d) of
                       [] \<Rightarrow> (Inl ServerError, sess, d)
                     | u # _ \<Rightarrow>
                         (case currentPassword of
                            None \<Rightarrow> (Inl ServerError, sess, d)
                          | Some cur \<Rightarrow>
                              if \<not> compare cur (u_password_hash u)
                              then (Inl InvalidCurrentPassword, sess, d)
                              else (Inr (), sess, set_password uid (hash np) d)))))"

text \<open>
  \<^verbatim>\<open>PUT /api/auth/force-password-change\<close> of \<^verbatim>\<open>server.js\<close>: the same length test and
  the same \<^verbatim>\<open>UPDATE\<close>, with no current password.
\<close>

definition forceChangePassword ::
  "(string \<Rightarrow> string) \<Rightarrow> session \<Rightarrow> string option \<Rightarrow> db \<Rightarrow> (error + unit) \<times> session \<times> db" where
  "forceChangePassword hash sess newPassword d =
     (case requireAuth sess of
        None \<Rightarrow> (Inl Unauthorized, sess, d)
      | Some uid \<Rightarrow>
          (case newPassword of
             None \<Rightarrow> (Inl WeakPassword, sess, d)
           | Some np \<Rightarrow>
               if np = [] \<or> length np < 5 then (Inl WeakPassword, sess, d)
               else (Inr (), sess, set_password uid (hash np) d)))"

text \<open>
  The two handlers of \<^verbatim>\<open>part_001\<close>: the same tests and the same \<^verbatim>\<open>UPDATE\<close>; on
  success \<^verbatim>\<open>req.session.mustChangePassword = false\<close> as well.
\<close>

definition changePassword_p1 ::
  "(string \<Rightarrow> string) \<Rightarrow> (string \<Rightarrow> string \<Rightarrow> bool) \<Rightarrow> session \<Rightarrow> string option \<Rightarrow> string option
     \<Rightarrow> db \<Rightarrow> (error + unit) \<times> session \<times> db" where
  "changePassword_p1 hash compare sess currentPassword newPassword d =
     (case requireAuth sess of
        None \<Rightarrow> (Inl Unauthorized, sess, d)
      | Some uid \<Rightarrow>
          (case newPassword of
             None \<Rightarrow> (Inl WeakPassword, sess, d)
           | Some np \<Rightarrow>
               if np = [] \<or> length np < 5 then (Inl WeakPassword, sess, d)
               else (case filter (\<lambda>u. u_id u = uid) (users d) of
                       [] \<Rightarrow> (Inl ServerError, sess, d)
                     | u # _ \<Rightarrow>
                         (case currentPassword of
                            None \<Rightarrow> (Inl ServerError, sess, d)
                          | Some cur \<Rightarrow>
                              if \<not> compare cur (u_password_hash u)
                              then (Inl InvalidCurrentPassword, sess, d)
                              else (Inr (), sess\<lparr> s_mustChangePassword := False \<rparr>,
                                    set_password uid (hash np) d)))))"

definition forceChangePassword_p1 ::
  "(string \<Rightarrow> string) \<Rightarrow> session \<Rightarrow> string option \<Rightarrow> db \<Rightarrow> (error + unit) \<times> session \<times> db" where
  "forceChangePassword_p1 hash sess newPassword d =
     (case requireAuth sess of
        None \<Rightarrow> (Inl Unauthorized, sess, d)
      | Some uid \<Rightarrow>
          (case newPassword of
             None \<Rightarrow> (Inl WeakPassword, sess, d)
           | Some np \<Rightarrow>
               if np = [] \<or> length np < 5 then (Inl WeakPassword, sess, d)
               else (Inr (), sess\<lparr> s_mustChangePassword := False \<rparr>,
                     set_password uid (hash np) d)))"

section \<open>Administration\<close>



section \<open>Statements\<close>

text \<open>
  The first two constants of \<^verbatim>\<open>generateCreditorStatement\<close> and of
  \<^verbatim>\<open>generateDebtorStatement\<close> (the client script, \<^verbatim>\<open>part_000\<close>):
  \<^verbatim>\<open>lang = creditor.language || 'english'\<close> and the title chosen from the gender and
  \<open>lang\<close>. The title is followed by the full name in the recipient line and in the
  greeting of the letter.
\<close>

definition statement_lang :: "party \<Rightarrow> string" where
  "statement_lang c = (if p_language c = [] then ''english'' else p_language c)"

definition generateCreditorStatement_title :: "party \<Rightarrow> string" where
  "generateCreditorStatement_title creditor =
     (let lang = statement_lang creditor
      in if p_gender creditor = ''female''
         then (if lang = ''french'' then ''Mme'' else ''Mrs.'')
         else (if lang = ''french'' then ''M.'' else ''Mr.''))"

definition generateDebtorStatement_title :: "party \<Rightarrow> string" where
  "generateDebtorStatement_title debtor =
     (let lang = statement_lang debtor
      in if p_gender debtor = ''female''
         then (if lang = ''french'' then ''Mme'' else ''Mrs.'')
         else (if lang = ''french'' then ''M.'' else ''Mr.''))"

text \<open>\<^verbatim>\<open>${title} ${creditor.full_name}\<close>\<close>

definition creditor_addressee :: "party \<Rightarrow> string" where
  "creditor_addressee creditor =
     generateCreditorStatement_title creditor @ '' '' @ p_full_name creditor"

definition debtor_addressee :: "party \<Rightarrow> string" where
  "debtor_addressee debtor =
     generateDebtorStatement_title debtor @ '' '' @ p_full_name debtor"

section \<open>Rows of other users\<close>

text \<open>
  What the isolation of users speaks about, for a caller \<open>uid\<close>: the creditor (debtor)
  rows whose owner is another user, and the items whose parent row belongs to another
  user. An item has no owner column of its own: it is owned through its parent.
\<close>

definition rows_of_others :: "nat \<Rightarrow> party list \<Rightarrow> party list" where
  "rows_of_others uid party_tbl = filter (\<lambda>c. p_user_id c \<noteq> uid) party_tbl"

definition items_of_others :: "nat \<Rightarrow> party list \<Rightarrow> item list \<Rightarrow> item list" where
  "items_of_others uid party_tbl item_tbl =
     filter (\<lambda>i. filter (\<lambda>c. p_id c = i_parent i \<and> p_user_id c \<noteq> uid) party_tbl \<noteq> [])
       item_tbl"

section \<open>A sample store\<close>

text \<open>
  Two users, the administrator (id 1) and Bob (id 2). The administrator has one
  creditor with a pending and a paid item, one debtor without items, and two payments
  of the same day, recorded 100 seconds apart.
\<close>

definition amina :: party where
  "amina = \<lparr> p_id = 1, p_user_id = 1, p_full_name = ''Amina'', p_contact = '''',
             p_gender = ''female'', p_language = ''french'', p_created_at = 20 \<rparr>"

definition paul :: party where
  "paul = \<lparr> p_id = 1, p_user_id = 1, p_full_name = ''Paul'', p_contact = '''',
            p_gender = ''male'', p_language = ''english'', p_created_at = 30 \<rparr>"

definition loan :: item where
  "loan = \<lparr> i_id = 1, i_parent = 1, i_reason = ''loan'', i_amount = 500000,
            i_date_incurred = None, i_due_date = None, i_status = ''pending'',
            i_notes = '''', i_created_at = 20 \<rparr>"

definition rent :: item where
  "rent = \<lparr> i_id = 2, i_parent = 1, i_reason = ''rent'', i_amount = 250000,
            i_date_incurred = None, i_due_date = None, i_status = ''paid'',
            i_notes = '''', i_created_at = 20 \<rparr>"

definition first_payment :: payment where
  "first_payment = \<lparr> pay_id = 1, pay_user_id = 1, pay_type = ''paid'', pay_related_id = None,
       pay_amount = 100000, pay_date = 20000, pay_method = ''cash'', pay_reference = '''',
       pay_notes = '''', pay_created_at = 1728000100 \<rparr>"

definition second_payment :: payment where
  "second_payment = \<lparr> pay_id = 2, pay_user_id = 1, pay_type = ''received'', pay_related_id = None,
       pay_amount = 40000, pay_date = 20000, pay_method = ''cash'', pay_reference = '''',
       pay_notes = '''', pay_created_at = 1728000200 \<rparr>"

definition sample_db :: db where
  "sample_db =
     \<lparr> users =
         [\<lparr> u_id = 1, u_username = ''admin'', u_email = ''admin@ghouenzen.com'',
            u_password_hash = ''hash-of-12345'', u_full_name = ''Administrator'', u_phone = '''',
            u_address = '''', u_is_admin = True, u_must_change_password = True,
            u_created_at = 0, u_last_login = None \<rparr>,
          \<lparr> u_id = 2, u_username = ''bob'', u_email = ''bob@example.com'',
            u_password_hash = ''hash-of-secret'', u_full_name = ''Bob'', u_phone = '''',
            u_address = '''', u_is_admin = False, u_must_change_password = False,
            u_created_at = 10, u_last_login = None \<rparr>],
       creditors = [amina],
       creditor_items = [loan, rent],
       debtors = [paul],
       debtor_items = [],
       payments = [first_payment, second_payment],
       users_seq = 2, creditors_seq = 1, creditor_items_seq = 2,
       debtors_seq = 1, debtor_items_seq = 0, payments_seq = 2 \<rparr>"

definition admin_session :: session where
  "admin_session = \<lparr> s_userId = Some 1, s_username = ''admin'', s_isAdmin = True,
                      s_mustChangePassword = True \<rparr>"

definition bob_session :: session where
  "bob_session = \<lparr> s_userId = Some 2, s_username = ''bob'', s_isAdmin = False,
                    s_mustChangePassword = False \<rparr>"

text \<open>A body with one item, of which only the amount is given.\<close>

definition one_item :: item_input where
  "one_item = \<lparr> in_reason = None, in_amount = Some 100, in_date_incurred = None,
                in_due_date = None, in_status = None, in_notes = None \<rparr>"

definition some_fields :: party_input where
  "some_fields = \<lparr> in_full_name = Some ''Amina B.'', in_contact = None, in_gender = None,
                   in_language = None \<rparr>"

text \<open>A payment of type \<^verbatim>\<open>paid\<close>, with no date given.\<close>

definition cash_paid :: payment_input where
  "cash_paid = \<lparr> in_type = Some ''paid'', in_related_id = Some 1, in_pay_amount = Some 100000,
       in_payment_date = None, in_payment_method = Some ''cash'', in_reference = None,
       in_pay_notes = None \<rparr>"

section \<open>Computed amounts of the listings\<close>

lemma foldl_add_amount:
  "foldl (\<lambda>sum it. sum + i_amount it) a xs = a + sum_list (map i_amount xs)"
  by (induction xs arbitrary: a) simp_all

lemma reduce_amount_sum_list: "reduce_amount xs = sum_list (map i_amount xs)"
  by (simp add: reduce_amount_def foldl_add_amount)

lemma sum_list_filter_status:
  "sum_list (map i_amount (filter (\<lambda>i. i_status i = s) xs))
     = sum_list (map (\<lambda>i. if i_status i = s then i_amount i else 0) xs)"
  by (induction xs) simp_all

lemma listed_view:
  assumes "listCreditors sess d = Inr rs \<or> listDebtors sess d = Inr rs" and "r \<in> set rs"
  obtains tbl c where "r = party_view_of tbl c"
  using assms
  by (auto simp: listCreditors_def listDebtors_def split: option.splits)



text \<open>
  Claim C4. Every record that \<open>listCreditors\<close> or \<open>listDebtors\<close> returns has a
  \<open>pending_amount\<close> equal to the sum of the amounts of exactly its items of status
  \<^verbatim>\<open>pending\<close>: an item of any other status, \<^verbatim>\<open>partial\<close> and \<^verbatim>\<open>paid\<close> among them,
  contributes 0.
\<close>

theorem list_pending_amount:
  assumes "listCreditors sess d = Inr rs \<or> listDebtors sess d = Inr rs"
    and "r \<in> set rs"
  shows "pending_amount r
           = sum_list (map i_amount (filter (\<lambda>i. i_status i = ''pending'') (pv_items r)))
         \<and> pending_amount r
           = sum_list (map (\<lambda>i. if i_status i = ''pending'' then i_amount i else 0) (pv_items r))"
proof -
  from assms obtain tbl c where "r = party_view_of tbl c"
    by (rule listed_view)
  then have "pending_amount r
      = sum_list (map i_amount (filter (\<lambda>i. i_status i = ''pending'') (pv_items r)))"
    by (simp add: party_view_of_def Let_def reduce_amount_sum_list)
  then show ?thesis
    by (simp add: sum_list_filter_status)
qed

text \<open>On the sample store: of a pending and a paid item, the pending one alone counts.\<close>

theorem list_pending_amount_witness:
  "listCreditors admin_session sample_db = Inr [party_view_of [loan, rent] amina]
   \<and> pv_items (party_view_of [loan, rent] amina) = [loan, rent]
   \<and> i_status loan = ''pending'' \<and> i_status rent = ''paid''
   \<and> pending_amount (party_view_of [loan, rent] amina) = i_amount loan"
  using list_pending_amount [of admin_session sample_db "[party_view_of [loan, rent] amina]"
      "party_view_of [loan, rent] amina"]
  by (simp add: listCreditors_def requireAuth_def admin_session_def sample_db_def
      party_view_of_def Let_def amina_def loan_def rent_def)

section \<open>Dashboard\<close>

lemma coalesce_sql_sum: "parse_or_zero (coalesce (sql_sum xs) 0) = sum_list xs"
  by (cases xs) (simp_all add: sql_sum_def coalesce_def parse_or_zero_def)

text \<open>
  Claim C5. For an authenticated caller both variants of \<open>dashboardStats\<close> answer, and
  in the answer \<open>net_position\<close> is \<open>total_owed_by_debtors\<close> minus
  \<open>total_owed_to_creditors\<close>, a signed number. Each of the two totals is the sum over
  the pending items of the caller's creditors (debtors), and it is the number 0 when
  the query finds no row.
\<close>

theorem dashboard_net_position:
  assumes "requireAuth sess = Some uid"
  shows "\<exists>st st1.
           dashboardStats sess d = Inr st \<and> dashboardStats_p1 sess d = Inr st1
           \<and> net_position st = total_owed_by_debtors st - total_owed_to_creditors st
           \<and> net_position st1 = total_owed_by_debtors st1 - total_owed_to_creditors st1
           \<and> total_owed_to_creditors st = sum_list (pending_amounts (creditor_items d) (creditors d) uid)
           \<and> total_owed_by_debtors st = sum_list (pending_amounts (debtor_items d) (debtors d) uid)
           \<and> total_owed_to_creditors st1 = total_owed_to_creditors st
           \<and> total_owed_by_debtors st1 = total_owed_by_debtors st
           \<and> (pending_amounts (creditor_items d) (creditors d) uid = [] \<longrightarrow>
                 total_owed_to_creditors st = 0)
           \<and> (pending_amounts (debtor_items d) (debtors d) uid = [] \<longrightarrow>
                 total_owed_by_debtors st = 0)"
  using assms
  by (simp add: dashboardStats_def dashboardStats_p1_def Let_def coalesce_sql_sum)

text \<open>
  On the sample store the administrator has a pending item owed to a creditor and no
  debtor item: the debtor total is 0 and the net position is negative.
\<close>

theorem dashboard_net_position_witness:
  "requireAuth admin_session = Some 1
   \<and> pending_amounts (debtor_items sample_db) (debtors sample_db) 1 = []
   \<and> map_sum id total_owed_by_debtors (dashboardStats admin_session sample_db) = Inr 0
   \<and> map_sum id total_owed_to_creditors (dashboardStats admin_session sample_db) = Inr 500000
   \<and> map_sum id net_position (dashboardStats admin_session sample_db) = Inr (- 500000)
   \<and> map_sum id net_position (dashboardStats_p1 admin_session sample_db) = Inr (- 500000)"
  using dashboard_net_position [of admin_session 1 sample_db]
  by (simp add: requireAuth_def admin_session_def sample_db_def pending_amounts_def
      loan_def rent_def amina_def paul_def dashboardStats_def dashboardStats_p1_def Let_def
      sql_sum_def coalesce_def parse_or_zero_def)

section \<open>Recording a payment\<close>

lemma recordPayment_writes:
  "snd (recordPayment sess p now d)
     = d\<lparr> payments := payments (snd (recordPayment sess p now d)),
          payments_seq := payments_seq (snd (recordPayment sess p now d)) \<rparr>"
  by (simp add: recordPayment_def Let_def split: option.splits)

lemma recordPayment_p1_writes:
  "snd (recordPayment_p1 sess p now d)
     = d\<lparr> payments := payments (snd (recordPayment_p1 sess p now d)),
          payments_seq := payments_seq (snd (recordPayment_p1 sess p now d)) \<rparr>"
  by (simp add: recordPayment_p1_def Let_def split: option.splits)

text \<open>What cannot change when only \<^verbatim>\<open>payments\<close> and its sequence are written.\<close>

lemma payments_frame:
  assumes "d' = d\<lparr> payments := tbl, payments_seq := seq \<rparr>"
  shows "users d' = users d
         \<and> creditors d' = creditors d \<and> creditor_items d' = creditor_items d
         \<and> debtors d' = debtors d \<and> debtor_items d' = debtor_items d
         \<and> listCreditors s d' = listCreditors s d \<and> listDebtors s d' = listDebtors s d
         \<and> dashboardStats_p1 s d' = dashboardStats_p1 s d
         \<and> map_sum id stats.truncate (dashboardStats s d')
             = map_sum id stats.truncate (dashboardStats s d)"
  using assms
  by (simp add: listCreditors_def listDebtors_def dashboardStats_p1_def dashboardStats_def
      stats.truncate_def Let_def split: option.splits)

text \<open>
  Claim C6. Whatever the session and the submitted payment (any type, any amount,
  accepted or refused), \<open>recordPayment\<close> in either variant leaves the creditor and
  debtor tables and both item tables as they were; so for every session \<open>s\<close> the
  listings, with the items, their statuses and amounts and the computed
  \<open>total_amount\<close> and \<open>pending_amount\<close>, and the totals of the dashboard are the same
  before and after (\<open>stats.truncate\<close> drops the list of recent payments, which is all
  that may change in the answer of \<^verbatim>\<open>server.js\<close>).
\<close>

theorem recordPayment_frame:
  "creditors (snd (recordPayment sess p now d)) = creditors d
   \<and> creditor_items (snd (recordPayment sess p now d)) = creditor_items d
   \<and> debtors (snd (recordPayment sess p now d)) = debtors d
   \<and> debtor_items (snd (recordPayment sess p now d)) = debtor_items d
   \<and> listCreditors s (snd (recordPayment sess p now d)) = listCreditors s d
   \<and> listDebtors s (snd (recordPayment sess p now d)) = listDebtors s d
   \<and> map_sum id stats.truncate (dashboardStats s (snd (recordPayment sess p now d)))
       = map_sum id stats.truncate (dashboardStats s d)
   \<and> creditors (snd (recordPayment_p1 sess p now d)) = creditors d
   \<and> creditor_items (snd (recordPayment_p1 sess p now d)) = creditor_items d
   \<and> debtors (snd (recordPayment_p1 sess p now d)) = debtors d
   \<and> debtor_items (snd (recordPayment_p1 sess p now d)) = debtor_items d
   \<and> listCreditors s (snd (recordPayment_p1 sess p now d)) = listCreditors s d
   \<and> listDebtors s (snd (recordPayment_p1 sess p now d)) = listDebtors s d
   \<and> dashboardStats_p1 s (snd (recordPayment_p1 sess p now d)) = dashboardStats_p1 s d"
proof -
  note a = payments_frame [OF recordPayment_writes [of sess p now d], of s]
  note b = payments_frame [OF recordPayment_p1_writes [of sess p now d], of s]
  from a b show ?thesis
    by simp
qed

text \<open>
  On the sample store: the payment is recorded (it is the third row of \<^verbatim>\<open>payments\<close>)
  and the administrator's creditor is listed with the same two items.
\<close>

theorem recordPayment_frame_witness:
  "fst (recordPayment admin_session cash_paid 1728086400 sample_db) = Inr 3
   \<and> length (payments (snd (recordPayment admin_session cash_paid 1728086400 sample_db))) = 3
   \<and> creditor_items (snd (recordPayment admin_session cash_paid 1728086400 sample_db)) = [loan, rent]
   \<and> listCreditors admin_session (snd (recordPayment admin_session cash_paid 1728086400 sample_db))
       = Inr [party_view_of [loan, rent] amina]"
  using recordPayment_frame [of admin_session cash_paid 1728086400 sample_db admin_session]
  by (simp add: recordPayment_def requireAuth_def admin_session_def cash_paid_def sample_db_def
      Let_def listCreditors_def amina_def)

section \<open>Password length\<close>

text \<open>
  Claim C7. For an authenticated session and a new password of fewer than 5
  characters, \<open>changePassword\<close> and \<open>forceChangePassword\<close>, in both variants, answer
  \<open>WeakPassword\<close> and return the session and the store unchanged: no password hash
  and no \<^verbatim>\<open>must_change_password\<close> flag is written. The current password plays no role.
\<close>

theorem short_password_rejected:
  assumes "requireAuth sess = Some uid" and "length np < 5"
  shows "changePassword hash compare sess cur (Some np) d = (Inl WeakPassword, sess, d)
         \<and> forceChangePassword hash sess (Some np) d = (Inl WeakPassword, sess, d)
         \<and> changePassword_p1 hash compare sess cur (Some np) d = (Inl WeakPassword, sess, d)
         \<and> forceChangePassword_p1 hash sess (Some np) d = (Inl WeakPassword, sess, d)"
  using assms
  by (simp add: changePassword_def forceChangePassword_def changePassword_p1_def
      forceChangePassword_p1_def)

text \<open>
  On the sample store, with a stand-in for the hash function: the administrator's
  four-character password is refused, a five-character one is accepted.
\<close>

theorem short_password_rejected_witness:
  "requireAuth admin_session = Some 1 \<and> length ''1234'' < (5::nat)
   \<and> changePassword (\<lambda>p. ''hash-of-'' @ p) (\<lambda>p h. h = ''hash-of-'' @ p) admin_session
        (Some ''12345'') (Some ''1234'') sample_db = (Inl WeakPassword, admin_session, sample_db)
   \<and> forceChangePassword_p1 (\<lambda>p. ''hash-of-'' @ p) admin_session (Some ''1234'') sample_db
        = (Inl WeakPassword, admin_session, sample_db)
   \<and> fst (changePassword (\<lambda>p. ''hash-of-'' @ p) (\<lambda>p h. h = ''hash-of-'' @ p) admin_session
        (Some ''12345'') (Some ''12346'') sample_db) = Inr ()"
  using short_password_rejected [of admin_session 1 "''1234''" "\<lambda>p. ''hash-of-'' @ p"
      "\<lambda>p h. h = ''hash-of-'' @ p" "Some ''12345''" sample_db]
  by (simp add: requireAuth_def admin_session_def changePassword_def sample_db_def)

section \<open>Salutation of a statement\<close>

text \<open>
  Claim C9. For a record of gender \<^verbatim>\<open>male\<close> or \<^verbatim>\<open>female\<close> and language \<^verbatim>\<open>english\<close>
  or \<^verbatim>\<open>french\<close>, the creditor statement and the debtor statement choose the title
  \<^verbatim>\<open>Mr.\<close> (male, english), \<^verbatim>\<open>M.\<close> (male, french), \<^verbatim>\<open>Mrs.\<close> (female, english) and
  \<^verbatim>\<open>Mme\<close> (female, french).
\<close>

theorem statement_title_table:
  "(p_gender c = ''male'' \<and> p_language c = ''english'' \<longrightarrow>
      generateCreditorStatement_title c = ''Mr.'' \<and> generateDebtorStatement_title c = ''Mr.'')
   \<and> (p_gender c = ''male'' \<and> p_language c = ''french'' \<longrightarrow>
      generateCreditorStatement_title c = ''M.'' \<and> generateDebtorStatement_title c = ''M.'')
   \<and> (p_gender c = ''female'' \<and> p_language c = ''english'' \<longrightarrow>
      generateCreditorStatement_title c = ''Mrs.'' \<and> generateDebtorStatement_title c = ''Mrs.'')
   \<and> (p_gender c = ''female'' \<and> p_language c = ''french'' \<longrightarrow>
      generateCreditorStatement_title c = ''Mme'' \<and> generateDebtorStatement_title c = ''Mme'')"
  by (simp add: generateCreditorStatement_title_def generateDebtorStatement_title_def
      statement_lang_def Let_def)

text \<open>The four cases on the two sample records and their variants in the other language.\<close>

theorem statement_title_table_witness:
  "generateCreditorStatement_title paul = ''Mr.''
   \<and> generateDebtorStatement_title (paul\<lparr> p_language := ''french'' \<rparr>) = ''M.''
   \<and> generateCreditorStatement_title (amina\<lparr> p_language := ''english'' \<rparr>) = ''Mrs.''
   \<and> generateDebtorStatement_title amina = ''Mme''
   \<and> creditor_addressee amina = ''Mme Amina''"
  using statement_title_table [of paul]
    statement_title_table [of "paul\<lparr> p_language := ''french'' \<rparr>"]
    statement_title_table [of "amina\<lparr> p_language := ''english'' \<rparr>"]
    statement_title_table [of amina]
  by (simp add: paul_def amina_def creditor_addressee_def)

section \<open>Deleting a user\<close>




section \<open>Replacing the items of a creditor or debtor\<close>

text \<open>The loop of inserts appends one row per submitted item, in order, with new ids.\<close>

lemma insert_items_eq:
  "insert_items parent now its (tbl, seq)
     = (tbl @ map (\<lambda>(k, it). item_row (seq + Suc k) parent now it) (enumerate 0 its),
        seq + length its)"
proof (induction its arbitrary: tbl seq)
  case Nil
  show ?case by simp
next
  case (Cons it its)
  have "map (\<lambda>(k, it). item_row (seq + Suc k) parent now it) (enumerate (Suc 0) its)
      = map (\<lambda>(k, it). item_row (Suc seq + Suc k) parent now it) (enumerate 0 its)"
    by (simp add: enumerate_Suc_eq [of 0] split_def)
  with Cons show ?case by simp
qed






text \<open>
  A submitted item with a reason, an amount, a non-empty status and a note is stored
  with exactly these; the empty string and 0 are their own defaults.
\<close>

lemma item_row_verbatim:
  assumes "in_reason it = Some r" "in_amount it = Some a" "in_status it = Some s" "s \<noteq> []"
    "in_notes it = Some n"
  shows "item_row k parent now it
           = \<lparr> i_id = k, i_parent = parent, i_reason = r, i_amount = a,
               i_date_incurred = in_date_incurred it, i_due_date = in_due_date it,
               i_status = s, i_notes = n, i_created_at = now \<rparr>"
  using assms by (simp add: item_row_def or_str_def or_num_def)








section \<open>Order of the payment listing\<close>

lemma set_insert_by: "set (insert_by before x xs) = insert x (set xs)"
  by (induction xs) auto

lemma set_order_by: "set (order_by before xs) = set xs"
  by (induction xs) (simp_all add: order_by_def set_insert_by)

lemma sorted_insert_by:
  assumes total: "\<And>a b. before a b \<or> before b a"
    and trans: "\<And>a b c. before a b \<Longrightarrow> before b c \<Longrightarrow> before a c"
    and sorted: "sorted_wrt before xs"
  shows "sorted_wrt before (insert_by before x xs)"
  using sorted
proof (induction xs)
  case Nil
  show ?case by simp
next
  case (Cons y ys)
  show ?case
  proof (cases "before x y")
    case True
    with Cons.prems trans show ?thesis by auto
  next
    case False
    with total have "before y x" by blast
    with False Cons show ?thesis
      by (auto simp: set_insert_by)
  qed
qed

lemma sorted_order_by:
  assumes "\<And>a b. before a b \<or> before b a"
    and "\<And>a b c. before a b \<Longrightarrow> before b c \<Longrightarrow> before a c"
  shows "sorted_wrt before (order_by before xs)"
proof (induction xs)
  case Nil
  show ?case by (simp add: order_by_def)
next
  case (Cons x xs)
  have "order_by before (x # xs) = insert_by before x (order_by before xs)"
    by (simp add: order_by_def)
  with Cons assms show ?case
    by (simp add: sorted_insert_by)
qed

text \<open>
  The listing of \<^verbatim>\<open>server.js\<close> is the caller's payments, by payment date descending
  and, within a date, by creation time descending.
\<close>

lemma listPayments_sorted:
  assumes "listPayments sess d = Inr ps"
  shows "sorted_wrt by_date_created_desc ps"
    and "\<exists>uid. requireAuth sess = Some uid
           \<and> set ps = {p \<in> set (payments d). pay_user_id p = uid}"
proof -
  have total: "\<And>a b. by_date_created_desc a b \<or> by_date_created_desc b a"
    by (auto simp: by_date_created_desc_def)
  have trans: "\<And>a b c. by_date_created_desc a b \<Longrightarrow> by_date_created_desc b c
      \<Longrightarrow> by_date_created_desc a c"
    by (auto simp: by_date_created_desc_def)
  from assms obtain uid where uid: "requireAuth sess = Some uid"
    and ps: "ps = order_by by_date_created_desc (filter (\<lambda>p. pay_user_id p = uid) (payments d))"
    by (auto simp: listPayments_def split: option.splits)
  show "sorted_wrt by_date_created_desc ps"
    unfolding ps using total trans by (rule sorted_order_by)
  show "\<exists>uid. requireAuth sess = Some uid
           \<and> set ps = {p \<in> set (payments d). pay_user_id p = uid}"
    using uid ps by (auto simp: set_order_by)
qed

text \<open>The listing of \<^verbatim>\<open>part_001\<close> is sorted by payment date descending.\<close>

lemma listPayments_p1_sorted:
  assumes "listPayments_p1 sess d = Inr ps"
  shows "sorted_wrt (\<lambda>p q. pay_date q \<le> pay_date p) ps"
proof -
  from assms obtain uid
    where ps: "ps = order_by by_date_desc (filter (\<lambda>p. pay_user_id p = uid) (payments d))"
    by (auto simp: listPayments_p1_def split: option.splits)
  have "sorted_wrt by_date_desc ps"
    unfolding ps by (rule sorted_order_by) (auto simp: by_date_desc_def)
  then show ?thesis
    by (simp add: by_date_desc_def [abs_def])
qed

text \<open>
  In the listing of \<^verbatim>\<open>part_001\<close> the payments of one date stand in the order of the
  table, whatever their creation times.
\<close>

lemma filter_insert_by_date:
  "filter (\<lambda>p. pay_date p = day) (insert_by by_date_desc x xs)
     = (if pay_date x = day then x # filter (\<lambda>p. pay_date p = day) xs
        else filter (\<lambda>p. pay_date p = day) xs)"
  by (induction xs) (auto simp: by_date_desc_def)

lemma filter_order_by_date:
  "filter (\<lambda>p. pay_date p = day) (order_by by_date_desc xs) = filter (\<lambda>p. pay_date p = day) xs"
  by (induction xs) (simp_all add: order_by_def filter_insert_by_date)

lemma listPayments_p1_ties_in_table_order:
  assumes "listPayments_p1 sess d = Inr ps" and "requireAuth sess = Some uid"
  shows "filter (\<lambda>p. pay_date p = day) ps
           = filter (\<lambda>p. pay_date p = day) (filter (\<lambda>p. pay_user_id p = uid) (payments d))"
  using assms
  by (auto simp: listPayments_p1_def filter_order_by_date)

text \<open>
  Claim C8, at the failing input. The sample store holds two payments of the
  administrator with the same payment date, the second created 100 seconds after the
  first. \<open>listPayments_p1\<close> (\<^verbatim>\<open>ORDER BY payment_date DESC\<close> alone) returns the older one
  first, so the two are not in descending order of creation time; \<open>listPayments\<close> of
  \<^verbatim>\<open>server.js\<close>, whose query has the second sort key, returns the newer one first.
\<close>

theorem listPayments_p1_tie_order:
  "listPayments_p1 admin_session sample_db = Inr [first_payment, second_payment]
   \<and> pay_date first_payment = pay_date second_payment
   \<and> pay_created_at first_payment < pay_created_at second_payment
   \<and> listPayments admin_session sample_db = Inr [second_payment, first_payment]"
  by (simp add: listPayments_p1_def listPayments_def requireAuth_def admin_session_def
      sample_db_def order_by_def by_date_desc_def by_date_created_desc_def
      first_payment_def second_payment_def)

section \<open>Isolation of users\<close>

text \<open>A listing holds rows of the caller only, each with the items of that row.\<close>

lemma listCreditors_own_rows:
  assumes "listCreditors sess d = Inr rs" and "r \<in> set rs"
  shows "requireAuth sess = Some (p_user_id (pv_row r))"
    and "pv_row r \<in> set (creditors d)"
    and "set (pv_items r) = {i \<in> set (creditor_items d). i_parent i = p_id (pv_row r)}"
  using assms
  by (auto simp: listCreditors_def party_view_of_def Let_def split: option.splits)

lemma listDebtors_own_rows:
  assumes "listDebtors sess d = Inr rs" and "r \<in> set rs"
  shows "requireAuth sess = Some (p_user_id (pv_row r))"
    and "pv_row r \<in> set (debtors d)"
    and "set (pv_items r) = {i \<in> set (debtor_items d). i_parent i = p_id (pv_row r)}"
  using assms
  by (auto simp: listDebtors_def party_view_of_def Let_def split: option.splits)

lemma filter_map_unchanged:
  assumes "\<And>x. x \<in> set xs \<Longrightarrow> P (g x) = P x"
    and "\<And>x. x \<in> set xs \<Longrightarrow> P x \<Longrightarrow> g x = x"
  shows "filter P (map g xs) = filter P xs"
  using assms by (induction xs) auto

lemma set_party_fields_keys:
  "p_id (set_party_fields name f c) = p_id c" "p_user_id (set_party_fields name f c) = p_user_id c"
  by (simp_all add: set_party_fields_def)

text \<open>With the primary key, the row of an id has one owner.\<close>

lemma unique_owner:
  assumes "distinct (map p_id tbl)" "c0 \<in> set tbl" "p_id c0 = cid" "p_user_id c0 = uid"
    and "c \<in> set tbl" "p_id c = cid"
  shows "p_user_id c = uid"
proof -
  from assms(1) have "inj_on p_id (set tbl)"
    by (simp add: distinct_map)
  with assms(2,3,5,6) have "c = c0"
    by (auto dest: inj_onD)
  with assms(4) show ?thesis by simp
qed

lemma others_after_set_fields:
  assumes "distinct (map p_id tbl)" "c0 \<in> set tbl" "p_id c0 = cid" "p_user_id c0 = uid"
  shows "rows_of_others uid (map (\<lambda>c. if p_id c = cid then set_party_fields name f c else c) tbl)
           = rows_of_others uid tbl"
  unfolding rows_of_others_def
proof (rule filter_map_unchanged)
  fix c assume "c \<in> set tbl"
  show "(p_user_id (if p_id c = cid then set_party_fields name f c else c) \<noteq> uid)
      = (p_user_id c \<noteq> uid)"
    by (simp add: set_party_fields_keys)
next
  fix c assume "c \<in> set tbl" and other: "p_user_id c \<noteq> uid"
  with assms have "p_id c \<noteq> cid"
    using unique_owner by blast
  then show "(if p_id c = cid then set_party_fields name f c else c) = c"
    by simp
qed

lemma others_after_delete:
  assumes "distinct (map p_id tbl)" "c0 \<in> set tbl" "p_id c0 = cid" "p_user_id c0 = uid"
  shows "rows_of_others uid (filter (\<lambda>c. p_id c \<noteq> cid) tbl) = rows_of_others uid tbl"
  unfolding rows_of_others_def
  using unique_owner [OF assms]
  by (auto intro: filter_cong)

lemma others_filter_map:
  "(filter (\<lambda>c. p_id c = k \<and> p_user_id c \<noteq> uid)
      (map (\<lambda>c. if p_id c = cid then set_party_fields name f c else c) tbl) = [])
   = (filter (\<lambda>c. p_id c = k \<and> p_user_id c \<noteq> uid) tbl = [])"
  by (induction tbl) (auto simp: set_party_fields_keys)

lemma others_filter_delete:
  assumes "distinct (map p_id tbl)" "c0 \<in> set tbl" "p_id c0 = cid" "p_user_id c0 = uid"
  shows "(filter (\<lambda>c. p_id c = k \<and> p_user_id c \<noteq> uid) (filter (\<lambda>c. p_id c \<noteq> cid) tbl) = [])
   = (filter (\<lambda>c. p_id c = k \<and> p_user_id c \<noteq> uid) tbl = [])"
  using assms unique_owner [OF assms]
  by (auto simp: filter_empty_conv)

lemma others_items_not_own_parent:
  assumes "distinct (map p_id tbl)" "c0 \<in> set tbl" "p_id c0 = cid" "p_user_id c0 = uid"
    and "filter (\<lambda>c. p_id c = i_parent i \<and> p_user_id c \<noteq> uid) tbl \<noteq> []"
  shows "i_parent i \<noteq> cid"
proof
  assume "i_parent i = cid"
  with assms(5) obtain c where "c \<in> set tbl" "p_id c = cid" "p_user_id c \<noteq> uid"
    by (auto simp: filter_empty_conv)
  with assms(1-4) show False
    using unique_owner by blast
qed

lemma others_items_after_replace:
  assumes "distinct (map p_id tbl)" "c0 \<in> set tbl" "p_id c0 = cid" "p_user_id c0 = uid"
  shows "filter (\<lambda>i. filter (\<lambda>c. p_id c = i_parent i \<and> p_user_id c \<noteq> uid) tbl \<noteq> [])
           (fst (insert_items cid now its (filter (\<lambda>i. i_parent i \<noteq> cid) items, seq)))
         = filter (\<lambda>i. filter (\<lambda>c. p_id c = i_parent i \<and> p_user_id c \<noteq> uid) tbl \<noteq> []) items"
    (is "filter ?Q _ = filter ?Q items")
proof -
  have q: "?Q i \<Longrightarrow> i_parent i \<noteq> cid" for i
    using others_items_not_own_parent [OF assms] by blast
  have new: "filter ?Q (map (\<lambda>(k, it). item_row (seq + Suc k) cid now it) xs) = []" for xs
  proof -
    have "\<not> ?Q (item_row k cid now it)" for k it
      using q [of "item_row k cid now it"] by (auto simp: item_row_def)
    then show ?thesis
      by (auto simp: filter_empty_conv)
  qed
  have kept: "filter ?Q (filter (\<lambda>i. i_parent i \<noteq> cid) items) = filter ?Q items"
    using q by (auto intro: filter_cong)
  show ?thesis
    by (simp only: insert_items_eq fst_conv filter_append new kept append_Nil2)
qed

lemma others_items_after_delete:
  assumes "distinct (map p_id tbl)" "c0 \<in> set tbl" "p_id c0 = cid" "p_user_id c0 = uid"
  shows "filter (\<lambda>i. filter (\<lambda>c. p_id c = i_parent i \<and> p_user_id c \<noteq> uid) tbl \<noteq> [])
           (filter (\<lambda>i. i_parent i \<noteq> cid) items)
         = filter (\<lambda>i. filter (\<lambda>c. p_id c = i_parent i \<and> p_user_id c \<noteq> uid) tbl \<noteq> []) items"
  using others_items_not_own_parent [OF assms]
  by (auto intro: filter_cong)

lemma owned_row:
  assumes "filter (\<lambda>c. p_id c = cid \<and> p_user_id c = uid) tbl \<noteq> []"
  obtains c0 where "c0 \<in> set tbl" "p_id c0 = cid" "p_user_id c0 = uid"
  using assms by (auto simp: filter_empty_conv)

text \<open>
  The handlers of \<^verbatim>\<open>server.js\<close> keep the users apart: whatever id the caller \<open>uid\<close>
  supplies, an update or a deletion leaves the rows of the other users and the items
  under them as they were.
\<close>

lemma updateCreditor_isolated:
  assumes "requireAuth sess = Some uid" and "distinct (map p_id (creditors d))"
  shows "rows_of_others uid (creditors (snd (updateCreditor sess cid f items now d)))
           = rows_of_others uid (creditors d)
         \<and> items_of_others uid (creditors (snd (updateCreditor sess cid f items now d)))
               (creditor_items (snd (updateCreditor sess cid f items now d)))
           = items_of_others uid (creditors d) (creditor_items d)"
proof (cases "filter (\<lambda>c. p_id c = cid \<and> p_user_id c = uid) (creditors d) = []")
  case True
  with assms(1) show ?thesis
    by (simp add: updateCreditor_def)
next
  case False
  then obtain c0 where c0: "c0 \<in> set (creditors d)" "p_id c0 = cid" "p_user_id c0 = uid"
    by (rule owned_row)
  show ?thesis
  proof (cases "in_full_name f")
    case None
    with assms(1) False show ?thesis
      by (simp add: updateCreditor_def)
  next
    case (Some name)
    with assms(1) False show ?thesis
      by (simp add: updateCreditor_def Let_def split_def items_of_others_def
          others_after_set_fields [OF assms(2) c0] others_filter_map
          others_items_after_replace [OF assms(2) c0])
  qed
qed

lemma updateDebtor_isolated:
  assumes "requireAuth sess = Some uid" and "distinct (map p_id (debtors d))"
  shows "rows_of_others uid (debtors (snd (updateDebtor sess did f items now d)))
           = rows_of_others uid (debtors d)
         \<and> items_of_others uid (debtors (snd (updateDebtor sess did f items now d)))
               (debtor_items (snd (updateDebtor sess did f items now d)))
           = items_of_others uid (debtors d) (debtor_items d)"
proof (cases "filter (\<lambda>c. p_id c = did \<and> p_user_id c = uid) (debtors d) = []")
  case True
  with assms(1) show ?thesis
    by (simp add: updateDebtor_def)
next
  case False
  then obtain c0 where c0: "c0 \<in> set (debtors d)" "p_id c0 = did" "p_user_id c0 = uid"
    by (rule owned_row)
  show ?thesis
  proof (cases "in_full_name f")
    case None
    with assms(1) False show ?thesis
      by (simp add: updateDebtor_def)
  next
    case (Some name)
    with assms(1) False show ?thesis
      by (simp add: updateDebtor_def Let_def split_def items_of_others_def
          others_after_set_fields [OF assms(2) c0] others_filter_map
          others_items_after_replace [OF assms(2) c0])
  qed
qed

lemma deleteCreditor_isolated:
  assumes "requireAuth sess = Some uid" and "distinct (map p_id (creditors d))"
  shows "rows_of_others uid (creditors (snd (deleteCreditor sess cid d)))
           = rows_of_others uid (creditors d)
         \<and> items_of_others uid (creditors (snd (deleteCreditor sess cid d)))
               (creditor_items (snd (deleteCreditor sess cid d)))
           = items_of_others uid (creditors d) (creditor_items d)"
proof (cases "filter (\<lambda>c. p_id c = cid \<and> p_user_id c = uid) (creditors d) = []")
  case True
  with assms(1) show ?thesis
    by (simp add: deleteCreditor_def)
next
  case False
  then obtain c0 where c0: "c0 \<in> set (creditors d)" "p_id c0 = cid" "p_user_id c0 = uid"
    by (rule owned_row)
  from assms(1) False show ?thesis
    by (simp del: filter_filter add: deleteCreditor_def items_of_others_def
        others_after_delete [OF assms(2) c0] others_filter_delete [OF assms(2) c0]
        others_items_after_delete [OF assms(2) c0])
qed

lemma deleteDebtor_isolated:
  assumes "requireAuth sess = Some uid" and "distinct (map p_id (debtors d))"
  shows "rows_of_others uid (debtors (snd (deleteDebtor sess did d)))
           = rows_of_others uid (debtors d)
         \<and> items_of_others uid (debtors (snd (deleteDebtor sess did d)))
               (debtor_items (snd (deleteDebtor sess did d)))
           = items_of_others uid (debtors d) (debtor_items d)"
proof (cases "filter (\<lambda>c. p_id c = did \<and> p_user_id c = uid) (debtors d) = []")
  case True
  with assms(1) show ?thesis
    by (simp add: deleteDebtor_def)
next
  case False
  then obtain c0 where c0: "c0 \<in> set (debtors d)" "p_id c0 = did" "p_user_id c0 = uid"
    by (rule owned_row)
  from assms(1) False show ?thesis
    by (simp del: filter_filter add: deleteDebtor_def items_of_others_def
        others_after_delete [OF assms(2) c0] others_filter_delete [OF assms(2) c0]
        others_items_after_delete [OF assms(2) c0])
qed

text \<open>
  Payments: both listings are the caller's rows, and in both server files a deletion
  leaves the payments of the other users as they were.
\<close>

lemma listPayments_p1_own_rows:
  assumes "listPayments_p1 sess d = Inr ps"
  shows "\<exists>uid. requireAuth sess = Some uid
           \<and> set ps = {p \<in> set (payments d). pay_user_id p = uid}"
  using assms
  by (auto simp: listPayments_p1_def set_order_by split: option.splits)

lemma deletePayment_isolated:
  assumes "requireAuth sess = Some uid" and "distinct (map pay_id (payments d))"
  shows "filter (\<lambda>p. pay_user_id p \<noteq> uid) (payments (snd (deletePayment sess pid d)))
           = filter (\<lambda>p. pay_user_id p \<noteq> uid) (payments d)"
proof (cases "filter (\<lambda>p. pay_id p = pid \<and> pay_user_id p = uid) (payments d) = []")
  case True
  with assms(1) show ?thesis
    by (simp add: deletePayment_def)
next
  case False
  then obtain p0 where p0: "p0 \<in> set (payments d)" "pay_id p0 = pid" "pay_user_id p0 = uid"
    by (auto simp: filter_empty_conv)
  from assms(2) have inj: "inj_on pay_id (set (payments d))"
    by (simp add: distinct_map)
  have "pay_id p \<noteq> pid" if "p \<in> set (payments d)" "pay_user_id p \<noteq> uid" for p
  proof
    assume "pay_id p = pid"
    with inj p0 that(1) have "p = p0"
      by (auto dest: inj_onD)
    with p0 that(2) show False by simp
  qed
  then have "filter (\<lambda>p. pay_user_id p \<noteq> uid) (filter (\<lambda>p. pay_id p \<noteq> pid) (payments d))
      = filter (\<lambda>p. pay_user_id p \<noteq> uid) (payments d)"
    by (auto intro: filter_cong)
  with assms(1) False show ?thesis
    by (simp del: filter_filter add: deletePayment_def)
qed

lemma deletePayment_p1_isolated:
  assumes "requireAuth sess = Some uid"
  shows "filter (\<lambda>p. pay_user_id p \<noteq> uid) (payments (snd (deletePayment_p1 sess pid d)))
           = filter (\<lambda>p. pay_user_id p \<noteq> uid) (payments d)"
  using assms
  by (auto simp: deletePayment_p1_def intro: filter_cong)

text \<open>
  Claim C1, at the failing input. On the sample store Bob (user 2) is authenticated and
  supplies the id 1 of the administrator's creditor, whose two items are items of
  another user for Bob. \<open>updateCreditor_p1\<close> answers success and replaces them by the
  item Bob submitted; \<open>deleteCreditor_p1\<close> answers success and deletes them: in both
  cases the items of the other users are no longer what they were;
  \<open>updateDebtor_p1\<close> puts Bob's item under the administrator's debtor. The handlers
  of \<^verbatim>\<open>server.js\<close> answer \<open>NotFound\<close> on the same requests and write nothing.
\<close>

theorem update_p1_crosses_owner:
  "requireAuth bob_session = Some 2
   \<and> items_of_others 2 (creditors sample_db) (creditor_items sample_db) = [loan, rent]
   \<and> updateCreditor_p1 bob_session 1 some_fields [one_item] 50 sample_db
       = (Inr (), sample_db\<lparr> creditor_items := [item_row 3 1 50 one_item],
                              creditor_items_seq := 3 \<rparr>)
   \<and> items_of_others 2
         (creditors (snd (updateCreditor_p1 bob_session 1 some_fields [one_item] 50 sample_db)))
         (creditor_items (snd (updateCreditor_p1 bob_session 1 some_fields [one_item] 50 sample_db)))
       = [item_row 3 1 50 one_item]
   \<and> deleteCreditor_p1 bob_session 1 sample_db = (Inr (), sample_db\<lparr> creditor_items := [] \<rparr>)
   \<and> items_of_others 2 (creditors (snd (deleteCreditor_p1 bob_session 1 sample_db)))
         (creditor_items (snd (deleteCreditor_p1 bob_session 1 sample_db))) = []
   \<and> listCreditors admin_session (snd (deleteCreditor_p1 bob_session 1 sample_db))
       = Inr [party_view_of [] amina]
   \<and> updateDebtor_p1 bob_session 1 some_fields [one_item] 50 sample_db
       = (Inr (), sample_db\<lparr> debtor_items := [item_row 1 1 50 one_item],
                              debtor_items_seq := 1 \<rparr>)
   \<and> updateCreditor bob_session 1 some_fields [one_item] 50 sample_db = (Inl NotFound, sample_db)
   \<and> deleteCreditor bob_session 1 sample_db = (Inl NotFound, sample_db)
   \<and> updateDebtor bob_session 1 some_fields [one_item] 50 sample_db = (Inl NotFound, sample_db)"
  by (simp add: requireAuth_def bob_session_def admin_session_def sample_db_def amina_def
      paul_def loan_def rent_def some_fields_def updateCreditor_p1_def deleteCreditor_p1_def
      updateDebtor_p1_def updateCreditor_def deleteCreditor_def updateDebtor_def
      update_own_party_def listCreditors_def items_of_others_def item_row_def Let_def)

end
